theory Spec2Isabelle
  imports Main "HOL-Library.Word" "HOL-Library.Sublist"
begin

section \<open>The Deluge RPC client (delugeclient.go)\<close>

text \<open>
  A shallow embedding of the client of \<^verbatim>\<open>delugeclient.go\<close>. The client talks to
  three things outside the file: the TLS socket, the zlib streams and the rencode codec.
  Their results are inputs of the model (one record of outcomes per call), every operation
  on them is recorded in a trace of events, and the functions of the rencode library
  that inspect a decoded list are a parameter of the model, so that a theorem holds whatever
  the library does. Go's \<^verbatim>\<open>int\<close> and \<^verbatim>\<open>int64\<close> are 64-bit words (a 64-bit target),
  a panic is the value \<open>Panics\<close>.
\<close>

subsection \<open>Values and errors\<close>

type_synonym int64 = "64 word"

text \<open>
  The dynamic values an \<^verbatim>\<open>interface{}\<close> holds here: what the rencode decoder produces
  (\<^verbatim>\<open>[]byte\<close> for every string), and the Go strings and containers the client sends.
  Floats are kept as their IEEE bit patterns.
\<close>

datatype gvalue =
    GNil
  | GBool bool
  | GInt8 "8 word"
  | GInt16 "16 word"
  | GInt32 "32 word"
  | GInt64 int64
  | GBigInt int
  | GFloat32 "32 word"
  | GFloat64 "64 word"
  | GString string
  | GBytes string
  | GList "gvalue list"
  | GDict "(gvalue \<times> gvalue) list"

text \<open>The verb \<^verbatim>\<open>%T\<close> of package fmt: the name of the dynamic type.\<close>

fun go_type_name :: "gvalue \<Rightarrow> string" where
  "go_type_name GNil = ''<nil>''"
| "go_type_name (GBool _) = ''bool''"
| "go_type_name (GInt8 _) = ''int8''"
| "go_type_name (GInt16 _) = ''int16''"
| "go_type_name (GInt32 _) = ''int32''"
| "go_type_name (GInt64 _) = ''int64''"
| "go_type_name (GBigInt _) = ''*big.Int''"
| "go_type_name (GFloat32 _) = ''float32''"
| "go_type_name (GFloat64 _) = ''float64''"
| "go_type_name (GString _) = ''string''"
| "go_type_name (GBytes _) = ''[]uint8''"
| "go_type_name (GList _) = ''rencode.List''"
| "go_type_name (GDict _) = ''rencode.Dictionary''"

text \<open>The verb \<^verbatim>\<open>%d\<close>: a signed integer in decimal.\<close>

fun show_nat :: "nat \<Rightarrow> string" where
  "show_nat n =
     (if n < 10 then [char_of (48 + n)]
      else show_nat (n div 10) @ [char_of (48 + n mod 10)])"

definition show_int :: "int \<Rightarrow> string" where
  "show_int i = (if i < 0 then CHR ''-'' # show_nat (nat (- i)) else show_nat (nat i))"

text \<open>
  An error of another package (crypto/tls, compress/zlib, go-rencode) is known by its
  message only; it is never one of the error values this package creates.
\<close>

type_synonym ext_error = string

datatype error =
    ErrAlreadyClosed
  | ErrorsNew string
  | RPCError string
  | ExtError ext_error

fun Error :: "error \<Rightarrow> string" where
  "Error ErrAlreadyClosed = ''connection is already closed''"
| "Error (ErrorsNew m) = m"
| "Error (RPCError remoteMessage) = remoteMessage"
| "Error (ExtError m) = m"

datatype 'a outcome = Returns 'a | Panics

subsection \<open>Settings, client and response\<close>

type_synonym logger = nat
type_synonym tls_conn = nat

definition DefaultReadWriteTimeout :: int64 where
  "DefaultReadWriteTimeout = 1000000000 * 30"

record Settings =
  Hostname :: string
  Port :: "64 word"
  Login :: string
  Password :: string
  Logger :: "logger option"
  ReadWriteTimeout :: int64

record Client =
  settings :: Settings
  conn :: "tls_conn option"
  serial :: int64
  classID :: int64

definition rpcResponse :: int64 where "rpcResponse = 1"
definition rpcError :: int64 where "rpcError = 2"
definition rpcEvent :: int64 where "rpcEvent = 3"

text \<open>The conversion \<^verbatim>\<open>rpcResponseTypeID(mt)\<close> from int64 to int, both 64 bits wide.\<close>

definition rpcResponseTypeID :: "int64 \<Rightarrow> int64" where
  "rpcResponseTypeID mt = mt"

record DelugeResponse =
  messageType :: int64
  requestID :: int64
  returnValue :: "gvalue list"
  exceptionType :: string
  exceptionMessage :: string
  traceBack :: string
  eventName :: string
  data :: "gvalue list"

text \<open>The zero value \<^verbatim>\<open>DelugeResponse{}\<close>.\<close>

definition DelugeResponse_zero :: DelugeResponse where
  "DelugeResponse_zero =
     \<lparr>messageType = 0, requestID = 0, returnValue = [], exceptionType = [],
      exceptionMessage = [], traceBack = [], eventName = [], data = []\<rparr>"

definition IsError :: "DelugeResponse \<Rightarrow> bool" where
  "IsError dr = (messageType dr = rpcError)"

definition String :: "DelugeResponse \<Rightarrow> string" where
  "String dr =
     (if messageType dr = rpcError then
        ''RPC error '' @ exceptionType dr @ ''(''  @ [CHR 0x27] @ exceptionMessage dr
          @ [CHR 0x27] @ '')'' @ [CHR 0x0A] @ traceBack dr
      else if messageType dr = rpcResponse then
        (let typeStr = concat (map (\<lambda>v. go_type_name v @ '', '') (returnValue dr))
         in show_int (int (length (returnValue dr))) @ '' return values ['' @ typeStr @ '']'')
      else ''invalid message type: '' @ show_int (sint (messageType dr)))"

definition New :: "Settings \<Rightarrow> Client" where
  "New s0 =
     (let s = (if ReadWriteTimeout s0 = 0
               then s0\<lparr>ReadWriteTimeout := DefaultReadWriteTimeout\<rparr> else s0)
      in \<lparr>settings = s, conn = None, serial = 0, classID = 0\<rparr>)"

subsection \<open>The outside world\<close>

text \<open>
  What the client does to the outside, in the order it does it. A call of
  \<^verbatim>\<open>Rpc\<close>, \<^verbatim>\<open>Close\<close> or \<^verbatim>\<open>Connect\<close> returns the events it caused.
\<close>

datatype event =
    EvEncode gvalue
  | EvZlibClose
  | EvWrite tls_conn string
  | EvSetDeadline tls_conn int
  | EvNewReader tls_conn
  | EvDecode tls_conn
  | EvConnClose tls_conn
  | EvDial string
  | EvLog logger string

text \<open>
  The results of the external operations of one call of \<^verbatim>\<open>Rpc\<close>: \<^verbatim>\<open>e.Encode\<close>,
  \<^verbatim>\<open>z.Close\<close>, the buffer's bytes, \<^verbatim>\<open>c.conn.Write\<close>, \<^verbatim>\<open>time.Now\<close> (in
  nanoseconds), \<^verbatim>\<open>c.conn.SetDeadline\<close>, \<^verbatim>\<open>zlib.NewReader\<close> and \<^verbatim>\<open>d.Scan(&respList)\<close>.
\<close>

record rpc_io =
  encode_res :: "ext_error option"
  zclose_res :: "ext_error option"
  buf_bytes :: string
  write_res :: "int \<times> ext_error option"
  time_now :: int
  deadline_res :: "ext_error option"
  reader_res :: "ext_error option"
  decode_res :: "ext_error + gvalue list"

text \<open>
  The functions of go-rencode's \<^verbatim>\<open>List\<close> the client calls on a decoded list, by the
  targets it passes: \<^verbatim>\<open>Scan(&mt, &resp.requestID)\<close>, \<^verbatim>\<open>Scan(&errList)\<close>,
  \<^verbatim>\<open>Scan(&resp.exceptionType, &resp.exceptionMessage, &resp.traceBack)\<close>,
  \<^verbatim>\<open>Scan(&c.classID)\<close> and \<^verbatim>\<open>Get(0)\<close>. The library is not part of the repository.
\<close>

record rencode =
  Scan_int64_int64 :: "gvalue list \<Rightarrow> ext_error + (int64 \<times> int64)"
  Scan_List :: "gvalue list \<Rightarrow> ext_error + gvalue list"
  Scan_string3 :: "gvalue list \<Rightarrow> ext_error + (string \<times> string \<times> string)"
  Scan_int64 :: "gvalue list \<Rightarrow> ext_error + int64"
  Get :: "gvalue list \<Rightarrow> int \<Rightarrow> gvalue \<times> ext_error option"

definition logf :: "Client \<Rightarrow> string \<Rightarrow> event list" where
  "logf c msg = (case Logger (settings c) of None \<Rightarrow> [] | Some l \<Rightarrow> [EvLog l msg])"

definition MaxInt64 :: int64 where
  "MaxInt64 = 9223372036854775807"

subsection \<open>Rpc\<close>

definition resetTimeout :: "rpc_io \<Rightarrow> Client \<Rightarrow> event list \<times> error option outcome" where
  "resetTimeout io c =
     (case conn c of
        None \<Rightarrow> ([], Panics)
      | Some h \<Rightarrow>
          ([EvSetDeadline h (time_now io + sint (ReadWriteTimeout (settings c)))],
           Returns (map_option ExtError (deadline_res io))))"

text \<open>Lines 116 to 119: the serial of the next request.\<close>

definition next_serial :: "int64 \<Rightarrow> int64" where
  "next_serial s = (let s' = s + 1 in if s' = MaxInt64 then 1 else s')"

type_synonym rpc_result = "(DelugeResponse option \<times> error option) outcome"

definition Rpc ::
  "rencode \<Rightarrow> rpc_io \<Rightarrow> Client \<Rightarrow> string \<Rightarrow> gvalue list \<Rightarrow> (gvalue \<times> gvalue) list
     \<Rightarrow> Client \<times> event list \<times> rpc_result" where
  "Rpc L io c0 methodName args kwargs =
    (let c = c0\<lparr>serial := next_serial (serial c0)\<rparr>;
         payload = GList [GList [GInt64 (serial c), GString methodName, GList args, GDict kwargs]];
         t1 = [EvEncode payload]
     in case encode_res io of
          Some e \<Rightarrow> (c, t1, Returns (None, Some (ExtError e)))
        | None \<Rightarrow> (
     let t2 = t1 @ [EvZlibClose]
     in case zclose_res io of
          Some e \<Rightarrow> (c, t2, Returns (None, Some (ExtError e)))
        | None \<Rightarrow> (
     let t3 = t2 @ logf c ''flushed zlib buffer''
     in case conn c of
          None \<Rightarrow> (c, t3, Panics)
        | Some h \<Rightarrow> (
     let t4 = t3 @ [EvWrite h (buf_bytes io)]
     in case snd (write_res io) of
          Some e \<Rightarrow> (c, t4, Returns (None, Some (ExtError e)))
        | None \<Rightarrow> (
     let t5 = t4 @ logf c (''written '' @ show_int (fst (write_res io))
                             @ '' bytes to RPC connection'');
         (td, r) = resetTimeout io c;
         t6 = t5 @ td
     in case r of
          Panics \<Rightarrow> (c, t6, Panics)
        | Returns (Some e) \<Rightarrow> (c, t6, Returns (None, Some e))
        | Returns None \<Rightarrow> (
     let t7 = t6 @ [EvNewReader h]
     in case reader_res io of
          Some e \<Rightarrow> (c, t7, Returns (None, Some (ExtError e)))
        | None \<Rightarrow> (
     let t8 = t7 @ [EvDecode h]
     in case decode_res io of
          Inl e \<Rightarrow> (c, t8, Returns (None, Some (ExtError e)))
        | Inr respList \<Rightarrow> (
     (case Scan_int64_int64 L respList of
          Inl e \<Rightarrow> (c, t8, Returns (None, Some (ExtError e)))
        | Inr (mt, rid) \<Rightarrow> (
     if rid \<noteq> serial c then
       (c, t8, Returns (None, Some (ErrorsNew ''request/response serial id mismatch'')))
     else
     let resp = DelugeResponse_zero\<lparr>requestID := rid, messageType := rpcResponseTypeID mt\<rparr>
     in if length respList < 2 then (c, t8, Panics)
     else
     let respList' = drop 2 respList;
         classified =
           (if messageType resp = rpcResponse then
              Inr (resp\<lparr>returnValue := respList'\<rparr>)
            else if messageType resp = rpcError then
              (case Scan_List L respList' of
                 Inl e \<Rightarrow> Inl (ExtError e)
               | Inr errList \<Rightarrow>
                   (case Scan_string3 L errList of
                      Inl e \<Rightarrow> Inl (ExtError e)
                    | Inr (et, em, tb) \<Rightarrow>
                        Inr (resp\<lparr>exceptionType := et, exceptionMessage := em,
                                  traceBack := tb\<rparr>)))
            else if messageType resp = rpcEvent then
              Inl (ErrorsNew ''event support not available'')
            else Inl (ErrorsNew ''unknown message type''))
     in case classified of
          Inl e \<Rightarrow> (c, t8, Returns (None, Some e))
        | Inr resp' \<Rightarrow>
            (c, t8 @ logf c (''RPC('' @ methodName @ '') = '' @ String resp' @ [CHR 0x0A]),
             Returns (Some resp', None))))))))))))"

subsection \<open>Close and Connect\<close>

text \<open>\<^verbatim>\<open>Close\<close>, given the result of closing the socket.\<close>

definition Close :: "ext_error option \<Rightarrow> Client \<Rightarrow> Client \<times> event list \<times> error option" where
  "Close close_res c =
     (case conn c of
        None \<Rightarrow> (c, [], Some ErrAlreadyClosed)
      | Some h \<Rightarrow> (c\<lparr>conn := None\<rparr>, [EvConnClose h], map_option ExtError close_res))"

text \<open>
  \<^verbatim>\<open>Connect\<close>, given the result of \<^verbatim>\<open>tls.Dial\<close> and the outcomes of the login call.
\<close>

definition Connect ::
  "rencode \<Rightarrow> ext_error + tls_conn \<Rightarrow> rpc_io \<Rightarrow> Client
     \<Rightarrow> Client \<times> event list \<times> error option outcome" where
  "Connect L dial_res io c0 =
     (let addr = Hostname (settings c0) @ '':'' @ show_int (uint (Port (settings c0)));
          t1 = [EvDial addr]
      in case dial_res of
           Inl e \<Rightarrow> (c0\<lparr>conn := None\<rparr>, t1, Returns (Some (ExtError e)))
         | Inr h \<Rightarrow> (
      let c1 = c0\<lparr>conn := Some h\<rparr>;
          t2 = t1 @ logf c1 (''connected to '' @ addr @ [CHR 0x0A]);
          (c2, tr, r) = Rpc L io c1 ''daemon.login''
                          [GString (Login (settings c1)), GString (Password (settings c1))] []
      in case r of
           Panics \<Rightarrow> (c2, t2 @ tr, Panics)
         | Returns (_, Some e) \<Rightarrow> (c2, t2 @ tr, Returns (Some e))
         | Returns (None, None) \<Rightarrow> (c2, t2 @ tr, Panics)
         | Returns (Some resp, None) \<Rightarrow>
             if IsError resp then (c2, t2 @ tr, Returns (Some (RPCError (String resp))))
             else
               (case Scan_int64 L (returnValue resp) of
                  Inl e \<Rightarrow> (c2, t2 @ tr, Returns (Some (ExtError e)))
                | Inr cid \<Rightarrow>
                    (c2\<lparr>classID := cid\<rparr>,
                     t2 @ tr @ logf c2 (''login successful as user '' @ Login (settings c2)),
                     Returns None))))"

subsection \<open>The wrappers\<close>

text \<open>
  \<^verbatim>\<open>Options\<close> is a Go map; the list holds its entries in the order the \<^verbatim>\<open>range\<close>
  loop of \<^verbatim>\<open>mapToRencodeDictionary\<close> meets them.
\<close>

type_synonym Options = "(string \<times> gvalue) list"

definition mapToRencodeDictionary :: "Options \<Rightarrow> (gvalue \<times> gvalue) list" where
  "mapToRencodeDictionary m = map (\<lambda>(k, v). (GString k, v)) m"

definition AddTorrentMagnet ::
  "rencode \<Rightarrow> rpc_io \<Rightarrow> Client \<Rightarrow> string \<Rightarrow> Options
     \<Rightarrow> Client \<times> event list \<times> (string \<times> error option) outcome" where
  "AddTorrentMagnet L io c magnetURI options =
     (let args = [GString magnetURI, GDict (mapToRencodeDictionary options)];
          (c', tr, r) = Rpc L io c ''core.add_torrent_magnet'' args []
      in case r of
           Panics \<Rightarrow> (c', tr, Panics)
         | Returns (_, Some e) \<Rightarrow> (c', tr, Returns ([], Some e))
         | Returns (None, None) \<Rightarrow> (c', tr, Panics)
         | Returns (Some resp, None) \<Rightarrow>
             if IsError resp then (c', tr, Returns ([], Some (RPCError (String resp))))
             else
               (case Get L (returnValue resp) 0 of
                  (_, Some e) \<Rightarrow> (c', tr, Returns ([], Some (ExtError e)))
                | (torrentHash, None) \<Rightarrow>
                    if torrentHash = GNil then (c', tr, Returns ([], None))
                    else
                      (case torrentHash of
                         GBytes b \<Rightarrow> (c', tr, Returns (b, None))
                       | _ \<Rightarrow> (c', tr, Panics))))"

definition RemoveTorrent ::
  "rencode \<Rightarrow> rpc_io \<Rightarrow> Client \<Rightarrow> string \<Rightarrow> bool
     \<Rightarrow> Client \<times> event list \<times> (bool \<times> error option) outcome" where
  "RemoveTorrent L io c torrentID removeData =
     (let args = [GString torrentID, GBool removeData];
          (c', tr, r) = Rpc L io c ''core.remove_torrent'' args []
      in case r of
           Panics \<Rightarrow> (c', tr, Panics)
         | Returns (_, Some e) \<Rightarrow> (c', tr, Returns (False, Some e))
         | Returns (None, None) \<Rightarrow> (c', tr, Panics)
         | Returns (Some resp, None) \<Rightarrow>
             if IsError resp then (c', tr, Returns (False, Some (RPCError (String resp))))
             else (c', tr, Returns (True, None)))"

subsection \<open>Running the model\<close>

text \<open>
  A call receives \<open>respList\<close> when every external operation up to the decoding of
  the response succeeds and the decoder yields \<open>respList\<close>.
\<close>

definition receives :: "rpc_io \<Rightarrow> gvalue list \<Rightarrow> bool" where
  "receives io respList \<longleftrightarrow>
     encode_res io = None \<and> zclose_res io = None \<and> snd (write_res io) = None \<and>
     deadline_res io = None \<and> reader_res io = None \<and> decode_res io = Inr respList"

text \<open>
  One behaviour of the rencode library, to run the model on concrete inputs: a scan
  fails when the list is shorter than the targets or an element has another type than
  its target, \<^verbatim>\<open>Get\<close> fails out of range.
\<close>

fun as_int64 :: "gvalue \<Rightarrow> int64 option" where
  "as_int64 (GInt8 w) = Some (scast w)"
| "as_int64 (GInt16 w) = Some (scast w)"
| "as_int64 (GInt32 w) = Some (scast w)"
| "as_int64 (GInt64 w) = Some w"
| "as_int64 _ = None"

fun as_string :: "gvalue \<Rightarrow> string option" where
  "as_string (GBytes b) = Some b"
| "as_string (GString s) = Some s"
| "as_string _ = None"

fun sample_Scan_int64_int64 :: "gvalue list \<Rightarrow> ext_error + (int64 \<times> int64)" where
  "sample_Scan_int64_int64 (a # b # _) =
     (case (as_int64 a, as_int64 b) of
        (Some x, Some y) \<Rightarrow> Inr (x, y)
      | _ \<Rightarrow> Inl ''scan: type mismatch'')"
| "sample_Scan_int64_int64 _ = Inl ''scan: not enough elements''"

fun sample_Scan_List :: "gvalue list \<Rightarrow> ext_error + gvalue list" where
  "sample_Scan_List (GList l # _) = Inr l"
| "sample_Scan_List (_ # _) = Inl ''scan: type mismatch''"
| "sample_Scan_List [] = Inl ''scan: not enough elements''"

fun sample_Scan_string3 :: "gvalue list \<Rightarrow> ext_error + (string \<times> string \<times> string)" where
  "sample_Scan_string3 (a # b # c # _) =
     (case (as_string a, as_string b, as_string c) of
        (Some x, Some y, Some z) \<Rightarrow> Inr (x, y, z)
      | _ \<Rightarrow> Inl ''scan: type mismatch'')"
| "sample_Scan_string3 _ = Inl ''scan: not enough elements''"

fun sample_Scan_int64 :: "gvalue list \<Rightarrow> ext_error + int64" where
  "sample_Scan_int64 (a # _) =
     (case as_int64 a of Some x \<Rightarrow> Inr x | None \<Rightarrow> Inl ''scan: type mismatch'')"
| "sample_Scan_int64 [] = Inl ''scan: not enough elements''"

definition sample_Get :: "gvalue list \<Rightarrow> int \<Rightarrow> gvalue \<times> ext_error option" where
  "sample_Get vs i =
     (if 0 \<le> i \<and> i < int (length vs) then (vs ! nat i, None)
      else (GNil, Some ''get: index out of range''))"

definition sample_rencode :: rencode where
  "sample_rencode =
     \<lparr>Scan_int64_int64 = sample_Scan_int64_int64, Scan_List = sample_Scan_List,
      Scan_string3 = sample_Scan_string3, Scan_int64 = sample_Scan_int64,
      Get = sample_Get\<rparr>"

text \<open>Sample inputs: settings, a connected client and a call where every operation succeeds.\<close>

definition sample_settings :: Settings where
  "sample_settings =
     \<lparr>Hostname = ''localhost'', Port = 58846, Login = ''user'', Password = ''secret'',
      Logger = None, ReadWriteTimeout = 0\<rparr>"

definition sample_client :: Client where
  "sample_client = (New sample_settings)\<lparr>conn := Some 7\<rparr>"

definition sample_io :: "gvalue list \<Rightarrow> rpc_io" where
  "sample_io respList =
     \<lparr>encode_res = None, zclose_res = None, buf_bytes = ''x'', write_res = (1, None),
      time_now = 1000, deadline_res = None, reader_res = None,
      decode_res = Inr respList\<rparr>"

subsection \<open>Observations\<close>

text \<open>The message of the error a call returns, if it returns one.\<close>

definition error_message :: "('a \<times> error option) outcome \<Rightarrow> string option" where
  "error_message r = (case r of Returns (_, Some e) \<Rightarrow> Some (Error e) | _ \<Rightarrow> None)"

text \<open>
  The operations on the socket among the events, and whether a deadline is set before
  the first write of a trace.
\<close>

definition is_write :: "event \<Rightarrow> bool" where
  "is_write e = (case e of EvWrite _ _ \<Rightarrow> True | _ \<Rightarrow> False)"




text \<open>
  A sequence of calls on one client, each with its own outcomes of the outside world, and
  the serial the client holds after each call. A call that fails or panics has changed
  the serial all the same, so the sequence goes on from the client it leaves.
\<close>

type_synonym rpc_call = "rpc_io \<times> string \<times> gvalue list \<times> (gvalue \<times> gvalue) list"

fun serials :: "rencode \<Rightarrow> Client \<Rightarrow> rpc_call list \<Rightarrow> int64 list" where
  "serials L c [] = []"
| "serials L c ((io, m, a, k) # cs) =
     (let c' = fst (Rpc L io c m a k) in serial c' # serials L c' cs)"

text \<open>
  Three calls in a row, and a client that has connected: \<^verbatim>\<open>tls.Dial\<close> yields the
  connection 7 and the login call is answered with the class 5.
\<close>

definition sample_calls :: "rpc_call list" where
  "sample_calls =
     [(sample_io [GInt8 1, GInt8 1], ''daemon.info'', [], []),
      (sample_io [GInt8 1, GInt8 9], ''daemon.info'', [], []),
      (sample_io [GInt8 1, GInt8 3], ''daemon.get_method_list'', [], [])]"

definition sample_connected :: Client where
  "sample_connected =
     fst (Connect sample_rencode (Inr 7) (sample_io [GInt8 1, GInt8 1, GInt8 5])
            (New sample_settings))"

section \<open>Properties\<close>

subsection \<open>What a call of Rpc leaves and returns\<close>

lemma Rpc_client:
  "fst (Rpc L io c m a k) = c\<lparr>serial := next_serial (serial c)\<rparr>"
  by (simp add: Rpc_def Let_def resetTimeout_def
           split: option.splits sum.splits prod.splits outcome.splits)

lemma Rpc_result_receives:
  assumes "conn c = Some h" and "receives io respList"
    and "Scan_int64_int64 L respList = Inr (mt, rid)"
  shows "snd (snd (Rpc L io c m a k)) = 
    (if rid \<noteq> next_serial (serial c) then
        Returns (None, Some (ErrorsNew ''request/response serial id mismatch''))
     else if length respList < 2 then Panics
     else if mt = rpcResponse then
        Returns (Some (DelugeResponse_zero\<lparr>requestID := rid, messageType := mt,
                   returnValue := drop 2 respList\<rparr>), None)
     else if mt = rpcError then
        (case Scan_List L (drop 2 respList) of
           Inl e \<Rightarrow> Returns (None, Some (ExtError e))
         | Inr errList \<Rightarrow>
            (case Scan_string3 L errList of
               Inl e \<Rightarrow> Returns (None, Some (ExtError e))
             | Inr (et, em, tb) \<Rightarrow>
                Returns (Some (DelugeResponse_zero\<lparr>requestID := rid, messageType := mt,
                     exceptionType := et, exceptionMessage := em, traceBack := tb\<rparr>), None)))
     else if mt = rpcEvent then Returns (None, Some (ErrorsNew ''event support not available''))
     else Returns (None, Some (ErrorsNew ''unknown message type'')))"
  using assms
  by (simp add: Rpc_def Let_def resetTimeout_def receives_def rpcResponseTypeID_def
           split: sum.splits prod.splits)

lemma Rpc_remote_error:
  assumes "conn c = Some h" and "receives io respList"
    and "Scan_int64_int64 L respList = Inr (rpcError, next_serial (serial c))"
    and "2 \<le> length respList"
    and "Scan_List L (drop 2 respList) = Inr errList"
    and "Scan_string3 L errList = Inr (et, em, tb)"
  shows "snd (snd (Rpc L io c m a k)) =
           Returns (Some (DelugeResponse_zero\<lparr>requestID := next_serial (serial c),
                      messageType := rpcError, exceptionType := et, exceptionMessage := em,
                      traceBack := tb\<rparr>), None)"
  using assms(4-6)
  by (simp add: Rpc_result_receives [OF assms(1-3)] rpcError_def rpcResponse_def)

subsection \<open>The message of a remote error\<close>

text \<open>
  C1 (as amended). When the decoded envelope has message type 2, echoes the serial of the
  request and carries the error payload (exception type, exception message, traceback),
  the wrappers return an \<^verbatim>\<open>RPCError\<close> whose message is the text
  \<^verbatim>\<open>RPC error <type>('<message>')\n<traceback>\<close>: the composite of the three fields
  behind the prefix \<^verbatim>\<open>RPC error \<close>. For the payload ValueError, bad id, trace...
  the message is \<^verbatim>\<open>RPC error ValueError('bad id')\ntrace...\<close>.
\<close>

theorem remote_error_message:
  assumes "conn c = Some h" and "receives io respList"
    and "Scan_int64_int64 L respList = Inr (rpcError, next_serial (serial c))"
    and "2 \<le> length respList"
    and "Scan_List L (drop 2 respList) = Inr errList"
    and "Scan_string3 L errList = Inr (et, em, tb)"
  shows "error_message (snd (snd (RemoveTorrent L io c torrentID removeData)))
           = Some (''RPC error '' @ et @ ''('' @ [CHR 0x27] @ em @ [CHR 0x27] @ '')''
                     @ [CHR 0x0A] @ tb)
       \<and> error_message (snd (snd (AddTorrentMagnet L io c magnetURI options)))
           = Some (''RPC error '' @ et @ ''('' @ [CHR 0x27] @ em @ [CHR 0x27] @ '')''
                     @ [CHR 0x0A] @ tb)"
  by (simp add: RemoveTorrent_def AddTorrentMagnet_def Let_def case_prod_beta
        Rpc_remote_error [OF assms] error_message_def IsError_def String_def)

theorem remote_error_message_witness:
  "error_message (snd (snd (RemoveTorrent sample_rencode
       (sample_io [GInt8 2, GInt8 1, GList [GBytes ''ValueError'', GBytes ''bad id'',
                     GBytes (''trace'' @ [CHR 0xE2, CHR 0x80, CHR 0xA6])]])
       sample_client ''id'' False)))
     = Some (''RPC error ValueError('bad id')'' @ [CHR 0x0A] @ ''trace''
               @ [CHR 0xE2, CHR 0x80, CHR 0xA6])"
proof -
  let ?resp = "[GInt8 2, GInt8 1, GList [GBytes ''ValueError'', GBytes ''bad id'',
                     GBytes (''trace'' @ [CHR 0xE2, CHR 0x80, CHR 0xA6])]]"
  have 1: "conn sample_client = Some 7" by (simp add: sample_client_def)
  have 2: "receives (sample_io ?resp) ?resp" by (simp add: receives_def sample_io_def)
  have 3: "Scan_int64_int64 sample_rencode ?resp
             = Inr (rpcError, next_serial (serial sample_client))"
    by (simp add: sample_rencode_def rpcError_def next_serial_def sample_client_def New_def
          MaxInt64_def Let_def)
  have 4: "2 \<le> length ?resp" by simp
  have 5: "Scan_List sample_rencode (drop 2 ?resp)
             = Inr [GBytes ''ValueError'', GBytes ''bad id'',
                     GBytes (''trace'' @ [CHR 0xE2, CHR 0x80, CHR 0xA6])]"
    by (simp add: sample_rencode_def)
  have 6: "Scan_string3 sample_rencode [GBytes ''ValueError'', GBytes ''bad id'',
                     GBytes (''trace'' @ [CHR 0xE2, CHR 0x80, CHR 0xA6])]
             = Inr (''ValueError'', ''bad id'', ''trace'' @ [CHR 0xE2, CHR 0x80, CHR 0xA6])"
    by (simp add: sample_rencode_def)
  show ?thesis
    using remote_error_message [OF 1 2 3 4 5 6, of "''id''" False] by simp
qed

text \<open>
  C1 as stated fails: for that payload the message is not the bare composite
  \<^verbatim>\<open>ValueError('bad id')\ntrace...\<close>, since \<^verbatim>\<open>String\<close> puts \<^verbatim>\<open>RPC error \<close> before it.
\<close>

theorem remote_error_message_counterexample:
  "error_message (snd (snd (RemoveTorrent sample_rencode
       (sample_io [GInt8 2, GInt8 1, GList [GBytes ''ValueError'', GBytes ''bad id'',
                     GBytes (''trace'' @ [CHR 0xE2, CHR 0x80, CHR 0xA6])]])
       sample_client ''id'' False)))
     \<noteq> Some (''ValueError('bad id')'' @ [CHR 0x0A] @ ''trace''
               @ [CHR 0xE2, CHR 0x80, CHR 0xA6])"
  by code_simp

subsection \<open>Correlation of request and response\<close>

text \<open>
  C2. Whenever a call of \<^verbatim>\<open>Rpc\<close> decodes a response envelope (every operation up to
  the decoding succeeds and the scan of the two header fields yields a message type and
  a request id) and the request id differs from the serial the call has just assigned,
  \<^verbatim>\<open>Rpc\<close> returns a nil response and the error
  \<^verbatim>\<open>request/response serial id mismatch\<close>, whatever the message type and the
  payload are; the serial just assigned is the next serial of the client.
\<close>

theorem Rpc_serial_mismatch:
  assumes "conn c = Some h" and "receives io respList"
    and "Scan_int64_int64 L respList = Inr (mt, rid)"
    and "rid \<noteq> serial (fst (Rpc L io c methodName args kwargs))"
  shows "snd (snd (Rpc L io c methodName args kwargs))
           = Returns (None, Some (ErrorsNew ''request/response serial id mismatch''))
       \<and> serial (fst (Rpc L io c methodName args kwargs)) = next_serial (serial c)"
  using assms(4) by (simp add: Rpc_result_receives [OF assms(1-3)] Rpc_client)

theorem Rpc_serial_mismatch_witness:
  "snd (snd (Rpc sample_rencode (sample_io [GInt8 1, GInt8 5, GBool True]) sample_client
               ''core.remove_torrent'' [] []))
     = Returns (None, Some (ErrorsNew ''request/response serial id mismatch''))
   \<and> serial (fst (Rpc sample_rencode (sample_io [GInt8 1, GInt8 5, GBool True]) sample_client
               ''core.remove_torrent'' [] [])) = 1"
proof -
  let ?resp = "[GInt8 1, GInt8 5, GBool True]"
  have ser: "next_serial (serial sample_client) = 1"
    by (simp add: next_serial_def sample_client_def New_def MaxInt64_def Let_def)
  have 1: "conn sample_client = Some 7" by (simp add: sample_client_def)
  have 2: "receives (sample_io ?resp) ?resp" by (simp add: receives_def sample_io_def)
  have 3: "Scan_int64_int64 sample_rencode ?resp = Inr (1, 5)"
    by (simp add: sample_rencode_def)
  have 4: "(5 :: int64) \<noteq> serial (fst (Rpc sample_rencode (sample_io ?resp) sample_client
               ''core.remove_torrent'' [] []))"
    by (simp add: Rpc_client ser)
  show ?thesis
    using Rpc_serial_mismatch [OF 1 2 3 4] by (simp add: ser)
qed

subsection \<open>Message types other than response and error\<close>

text \<open>
  C4 (as amended). For every decoded response envelope whose message type is neither 1
  nor 2, \<^verbatim>\<open>Rpc\<close> returns a nil response and an error. When the envelope echoes the
  serial just assigned, the error is \<^verbatim>\<open>event support not available\<close> for message
  type 3, whatever the payload, and \<^verbatim>\<open>unknown message type\<close> for any other tag.
\<close>

theorem Rpc_other_message_type:
  assumes "conn c = Some h" and "receives io respList"
    and "Scan_int64_int64 L respList = Inr (mt, rid)"
    and "2 \<le> length respList"
    and "mt \<noteq> rpcResponse" and "mt \<noteq> rpcError"
  shows "(\<exists>e. snd (snd (Rpc L io c methodName args kwargs)) = Returns (None, Some e))
       \<and> (rid = next_serial (serial c) \<longrightarrow>
            snd (snd (Rpc L io c methodName args kwargs))
              = Returns (None, Some (ErrorsNew (if mt = rpcEvent
                                                then ''event support not available''
                                                else ''unknown message type''))))"
  using assms(4-6) by (simp add: Rpc_result_receives [OF assms(1-3)])

theorem Rpc_other_message_type_witness:
  "snd (snd (Rpc sample_rencode (sample_io [GInt8 3, GInt8 1, GBytes ''TorrentAddedEvent'', GList []])
               sample_client ''daemon.info'' [] []))
     = Returns (None, Some (ErrorsNew ''event support not available''))
   \<and> snd (snd (Rpc sample_rencode (sample_io [GInt8 9, GInt8 1]) sample_client
               ''daemon.info'' [] []))
     = Returns (None, Some (ErrorsNew ''unknown message type''))"
proof -
  let ?ev = "[GInt8 3, GInt8 1, GBytes ''TorrentAddedEvent'', GList []]"
  let ?un = "[GInt8 9, GInt8 1]"
  have ser: "next_serial (serial sample_client) = 1"
    by (simp add: next_serial_def sample_client_def New_def MaxInt64_def Let_def)
  have c: "conn sample_client = Some 7" by (simp add: sample_client_def)
  have ev: "receives (sample_io ?ev) ?ev" "Scan_int64_int64 sample_rencode ?ev = Inr (3, 1)"
    "2 \<le> length ?ev" "(3 :: int64) \<noteq> rpcResponse" "(3 :: int64) \<noteq> rpcError"
    by (simp_all add: receives_def sample_io_def sample_rencode_def rpcResponse_def rpcError_def)
  have un: "receives (sample_io ?un) ?un" "Scan_int64_int64 sample_rencode ?un = Inr (9, 1)"
    "2 \<le> length ?un" "(9 :: int64) \<noteq> rpcResponse" "(9 :: int64) \<noteq> rpcError"
    by (simp_all add: receives_def sample_io_def sample_rencode_def rpcResponse_def rpcError_def)
  show ?thesis
    using Rpc_other_message_type [OF c ev, of "''daemon.info''" "[]" "[]"]
      Rpc_other_message_type [OF c un, of "''daemon.info''" "[]" "[]"]
    by (simp add: ser rpcEvent_def)
qed

text \<open>
  C4 as stated fails: an envelope of message type 3 whose request id (2) is not the
  serial of the request (1) yields the correlation error, not the unsupported-event
  error, since the request id is checked before the message type.
\<close>

theorem Rpc_other_message_type_counterexample:
  "snd (snd (Rpc sample_rencode (sample_io [GInt8 3, GInt8 2, GBytes ''TorrentAddedEvent'', GList []])
               sample_client ''daemon.info'' [] []))
     = Returns (None, Some (ErrorsNew ''request/response serial id mismatch''))
   \<and> ErrorsNew ''request/response serial id mismatch'' \<noteq> ErrorsNew ''event support not available''"
  by code_simp

subsection \<open>Errors and responses exclude each other\<close>

text \<open>
  C5. Whenever \<^verbatim>\<open>Rpc\<close> returns a non-nil error, the response it returns is nil. A
  remote failure (an envelope of message type 2 that echoes the serial and carries a
  well-formed error payload) is returned as a non-nil response with \<^verbatim>\<open>IsError\<close> true
  and a nil error.
\<close>

theorem Rpc_no_partial_result:
  "(\<forall>r e. snd (snd (Rpc L io c methodName args kwargs)) = Returns (r, Some e) \<longrightarrow> r = None)
   \<and> (conn c = Some h \<and> receives io respList
        \<and> Scan_int64_int64 L respList = Inr (rpcError, next_serial (serial c))
        \<and> 2 \<le> length respList
        \<and> Scan_List L (drop 2 respList) = Inr errList
        \<and> Scan_string3 L errList = Inr (et, em, tb)
      \<longrightarrow> (\<exists>resp. snd (snd (Rpc L io c methodName args kwargs)) = Returns (Some resp, None)
                  \<and> IsError resp))"
proof (intro conjI allI impI)
  fix r e
  assume "snd (snd (Rpc L io c methodName args kwargs)) = Returns (r, Some e)"
  then show "r = None"
    by (auto simp add: Rpc_def Let_def resetTimeout_def
          split: option.splits sum.splits prod.splits outcome.splits if_splits)
next
  assume a: "conn c = Some h \<and> receives io respList
        \<and> Scan_int64_int64 L respList = Inr (rpcError, next_serial (serial c))
        \<and> 2 \<le> length respList
        \<and> Scan_List L (drop 2 respList) = Inr errList
        \<and> Scan_string3 L errList = Inr (et, em, tb)"
  then show "\<exists>resp. snd (snd (Rpc L io c methodName args kwargs)) = Returns (Some resp, None)
                  \<and> IsError resp"
    by (simp add: Rpc_remote_error [of c h io respList L errList et em tb] IsError_def)
qed

theorem Rpc_no_partial_result_witness:
  "(\<exists>resp. snd (snd (Rpc sample_rencode
                (sample_io [GInt8 2, GInt8 1, GList [GBytes ''KeyError'', GBytes ''x'', GBytes ''tb'']])
                sample_client ''core.move_storage'' [] [])) = Returns (Some resp, None)
          \<and> IsError resp)
   \<and> snd (snd (Rpc sample_rencode (sample_io [GInt8 2, GInt8 1, GList []])
                sample_client ''core.move_storage'' [] []))
       = Returns (None, Some (ExtError ''scan: not enough elements''))"
proof -
  let ?resp = "[GInt8 2, GInt8 1, GList [GBytes ''KeyError'', GBytes ''x'', GBytes ''tb'']]"
  let ?bad = "[GInt8 2, GInt8 1, GList []]"
  have hyp: "conn sample_client = Some 7 \<and> receives (sample_io ?resp) ?resp
        \<and> Scan_int64_int64 sample_rencode ?resp = Inr (rpcError, next_serial (serial sample_client))
        \<and> 2 \<le> length ?resp
        \<and> Scan_List sample_rencode (drop 2 ?resp) = Inr [GBytes ''KeyError'', GBytes ''x'', GBytes ''tb'']
        \<and> Scan_string3 sample_rencode [GBytes ''KeyError'', GBytes ''x'', GBytes ''tb'']
             = Inr (''KeyError'', ''x'', ''tb'')"
    by (simp add: sample_client_def receives_def sample_io_def sample_rencode_def rpcError_def
          next_serial_def New_def MaxInt64_def Let_def)
  have bad: "snd (snd (Rpc sample_rencode (sample_io ?bad) sample_client
                ''core.move_storage'' [] []))
       = Returns (None, Some (ExtError ''scan: not enough elements''))"
    by code_simp
  from Rpc_no_partial_result [of sample_rencode "sample_io ?resp" sample_client
      "''core.move_storage''" "[]" "[]" 7 ?resp "[GBytes ''KeyError'', GBytes ''x'', GBytes ''tb'']"
      "''KeyError''" "''x''" "''tb''"] hyp
  have "\<exists>resp. snd (snd (Rpc sample_rencode (sample_io ?resp) sample_client
                ''core.move_storage'' [] [])) = Returns (Some resp, None) \<and> IsError resp"
    by blast
  with bad show ?thesis by blast
qed

subsection \<open>RemoveTorrent\<close>

text \<open>
  C6 (as amended). For every call of \<^verbatim>\<open>RemoveTorrent\<close> whose RPC response is successful
  (a non-nil response that is not an error, with a nil error), the boolean returned to the
  caller is true and the error nil, whatever the payload of the response carries.
\<close>

theorem RemoveTorrent_success:
  assumes "snd (snd (Rpc L io c ''core.remove_torrent''
                       [GString torrentID, GBool removeData] [])) = Returns (Some resp, None)"
    and "\<not> IsError resp"
  shows "snd (snd (RemoveTorrent L io c torrentID removeData)) = Returns (True, None)"
  using assms by (simp add: RemoveTorrent_def Let_def case_prod_beta)

theorem RemoveTorrent_success_witness:
  "snd (snd (RemoveTorrent sample_rencode (sample_io [GInt8 1, GInt8 1, GBool True])
               sample_client ''abc'' True)) = Returns (True, None)"
proof -
  have 1: "snd (snd (Rpc sample_rencode (sample_io [GInt8 1, GInt8 1, GBool True]) sample_client
             ''core.remove_torrent'' [GString ''abc'', GBool True] []))
           = Returns (Some (DelugeResponse_zero\<lparr>requestID := 1, messageType := 1,
                              returnValue := [GBool True]\<rparr>), None)"
    by code_simp
  have 2: "\<not> IsError (DelugeResponse_zero\<lparr>requestID := 1, messageType := 1,
                              returnValue := [GBool True]\<rparr>)"
    by (simp add: IsError_def DelugeResponse_zero_def rpcError_def)
  show ?thesis by (rule RemoveTorrent_success [OF 1 2])
qed

text \<open>
  C6 as stated fails: a successful response whose payload carries the boolean false makes
  \<^verbatim>\<open>RemoveTorrent\<close> return true, since it never reads the payload.
\<close>

theorem RemoveTorrent_success_counterexample:
  "returnValue (DelugeResponse_zero\<lparr>requestID := 1, messageType := 1,
                   returnValue := [GBool False]\<rparr>) = [GBool False]
   \<and> snd (snd (Rpc sample_rencode (sample_io [GInt8 1, GInt8 1, GBool False]) sample_client
             ''core.remove_torrent'' [GString ''abc'', GBool True] []))
       = Returns (Some (DelugeResponse_zero\<lparr>requestID := 1, messageType := 1,
                              returnValue := [GBool False]\<rparr>), None)
   \<and> snd (snd (RemoveTorrent sample_rencode (sample_io [GInt8 1, GInt8 1, GBool False])
               sample_client ''abc'' True)) = Returns (True, None)"
  by code_simp

subsection \<open>AddTorrentMagnet\<close>

text \<open>
  C8. For every call of \<^verbatim>\<open>AddTorrentMagnet\<close> whose RPC response is successful and
  whose first return value is nil (\<^verbatim>\<open>Get(0)\<close> yields nil and no error),
  \<^verbatim>\<open>AddTorrentMagnet\<close> returns the empty string and a nil error.
\<close>

theorem AddTorrentMagnet_absent_hash:
  assumes "snd (snd (Rpc L io c ''core.add_torrent_magnet''
                       [GString magnetURI, GDict (mapToRencodeDictionary options)] []))
             = Returns (Some resp, None)"
    and "\<not> IsError resp"
    and "Get L (returnValue resp) 0 = (GNil, None)"
  shows "snd (snd (AddTorrentMagnet L io c magnetURI options)) = Returns ([], None)"
  using assms by (simp add: AddTorrentMagnet_def Let_def case_prod_beta)

theorem AddTorrentMagnet_absent_hash_witness:
  "snd (snd (AddTorrentMagnet sample_rencode (sample_io [GInt8 1, GInt8 1, GNil])
               sample_client ''magnet:?xt=urn:btih:00'' [(''add_paused'', GBool True)]))
     = Returns ([], None)"
proof -
  let ?r = "DelugeResponse_zero\<lparr>requestID := 1, messageType := 1, returnValue := [GNil]\<rparr>"
  have 1: "snd (snd (Rpc sample_rencode (sample_io [GInt8 1, GInt8 1, GNil]) sample_client
             ''core.add_torrent_magnet''
             [GString ''magnet:?xt=urn:btih:00'',
              GDict (mapToRencodeDictionary [(''add_paused'', GBool True)])] []))
           = Returns (Some ?r, None)"
    by code_simp
  have 2: "\<not> IsError ?r"
    by (simp add: IsError_def DelugeResponse_zero_def rpcError_def)
  have 3: "Get sample_rencode (returnValue ?r) 0 = (GNil, None)"
    by (simp add: sample_rencode_def sample_Get_def)
  show ?thesis by (rule AddTorrentMagnet_absent_hash [OF 1 2 3])
qed

subsection \<open>The serial counter\<close>

lemma next_serial_of_nat:
  assumes "k \<le> 9223372036854775806"
  shows "next_serial (word_of_nat k) = word_of_nat (k mod 9223372036854775806 + 1)"
proof -
  have "(word_of_nat (Suc k) :: int64) = word_of_nat 9223372036854775807
          \<longleftrightarrow> Suc k = 9223372036854775807"
    using assms by (subst word_of_nat_eq_iff) (simp add: take_bit_nat_eq_self)
  then have eq: "(word_of_nat k + 1 :: int64) = MaxInt64 \<longleftrightarrow> k = 9223372036854775806"
    by (simp add: MaxInt64_def add.commute)
  show ?thesis
  proof (cases "k = 9223372036854775806")
    case True
    with eq have "(word_of_nat k + 1 :: int64) = MaxInt64" by blast
    then show ?thesis using True unfolding next_serial_def Let_def by simp
  next
    case False
    with eq have ne: "(word_of_nat k + 1 :: int64) \<noteq> MaxInt64" by blast
    from False assms have "k mod 9223372036854775806 = k" by simp
    then show ?thesis using ne unfolding next_serial_def Let_def by simp
  qed
qed

lemma serials_from:
  assumes "serial c = word_of_nat k" and "k \<le> 9223372036854775806"
  shows "serials L c cs =
           map (\<lambda>i. word_of_nat ((k + i) mod 9223372036854775806 + 1)) [0..<length cs]"
  using assms
proof (induction cs arbitrary: c k)
  case Nil
  then show ?case by simp
next
  case (Cons call cs)
  obtain io m a kw where call: "call = (io, m, a, kw)" by (cases call) auto
  define c' where "c' = fst (Rpc L io c m a kw)"
  define k' where "k' = k mod 9223372036854775806 + 1"
  have s': "serial c' = word_of_nat k'"
    using Cons.prems by (simp add: c'_def k'_def Rpc_client next_serial_of_nat)
  have k': "k' \<le> 9223372036854775806"
    unfolding k'_def by (simp add: Suc_leI)
  have step: "(k' + i) mod 9223372036854775806 = (k + Suc i) mod 9223372036854775806" for i
  proof -
    have "(k mod 9223372036854775806 + (1 + i)) mod 9223372036854775806
            = (k + (1 + i)) mod 9223372036854775806"
      by (rule mod_add_left_eq)
    then show ?thesis unfolding k'_def by (simp add: ac_simps)
  qed
  have "serials L c' cs =
          map (\<lambda>i. word_of_nat ((k' + i) mod 9223372036854775806 + 1)) [0..<length cs]"
    by (rule Cons.IH [OF s' k'])
  then have "serials L c' cs =
          map (\<lambda>i. word_of_nat ((k + Suc i) mod 9223372036854775806 + 1)) [0..<length cs]"
    by (simp only: step)
  then show ?case
    using s' by (simp add: call c'_def [symmetric] k'_def map_upt_Suc del: upt_Suc)
qed

lemma serials_fresh:
  assumes "serial c = 0"
  shows "serials L c cs =
     map (\<lambda>i. word_of_nat (i mod 9223372036854775806 + 1)) [0..<length cs]"
  using serials_from [of c 0 L cs] assms by simp

lemma serials_nonzero:
  assumes "serial c = 0"
  shows "0 \<notin> set (serials L c cs)"
proof
  assume "0 \<in> set (serials L c cs)"
  then obtain i where "(word_of_nat (i mod 9223372036854775806 + 1) :: int64) = 0"
    by (auto simp: serials_fresh [OF assms])
  moreover have "(word_of_nat (i mod 9223372036854775806 + 1) :: int64) \<noteq> 0"
  proof (rule of_nat_neq_0)
    show "0 < i mod 9223372036854775806 + 1" by simp
    have "i mod 9223372036854775806 < 9223372036854775806" by simp
    then show "i mod 9223372036854775806 + 1 < 2 ^ LENGTH(64)" by simp
  qed
  ultimately show False by contradiction
qed

lemma serials_distinct:
  assumes "serial c = 0" and "length cs \<le> 9223372036854775806"
  shows "distinct (serials L c cs)"
proof -
  have "inj_on (\<lambda>i. word_of_nat (i mod 9223372036854775806 + 1) :: int64) {0..<length cs}"
  proof (rule inj_onI)
    fix i j
    assume i: "i \<in> {0..<length cs}" and j: "j \<in> {0..<length cs}"
      and eq: "(word_of_nat (i mod 9223372036854775806 + 1) :: int64)
                 = word_of_nat (j mod 9223372036854775806 + 1)"
    from i j assms(2) have lt: "i < 9223372036854775806" "j < 9223372036854775806"
      by simp_all
    from eq have "take_bit LENGTH(64) (i mod 9223372036854775806 + 1)
                    = take_bit LENGTH(64) (j mod 9223372036854775806 + 1)"
      by (simp only: word_of_nat_eq_iff)
    moreover have "take_bit LENGTH(64) (i mod 9223372036854775806 + 1) = i + 1"
      using lt(1) by (simp add: take_bit_nat_eq_self)
    moreover have "take_bit LENGTH(64) (j mod 9223372036854775806 + 1) = j + 1"
      using lt(2) by (simp add: take_bit_nat_eq_self)
    ultimately show "i = j" by simp
  qed
  then show ?thesis by (simp add: serials_fresh [OF assms(1)] distinct_map)
qed

lemma Rpc_first_event:
  "hd (fst (snd (Rpc L io c m a k)))
     = EvEncode (GList [GList [GInt64 (next_serial (serial c)), GString m, GList a, GDict k]])"
  by (simp add: Rpc_def Let_def resetTimeout_def
           split: option.splits sum.splits prod.splits outcome.splits)

text \<open>
  C3. Every call of \<^verbatim>\<open>Rpc\<close> assigns the serial that is the previous one plus one,
  replaced by 1 when the incremented value is the largest int64, and attaches it to the
  request (the first element of the encoded payload). A client made by \<^verbatim>\<open>New\<close>
  starts at serial 0. On a client that starts at 0, the call number \<open>i\<close> (counted from 0)
  of any sequence of calls has the serial \<open>i mod (2^63 - 2) + 1\<close>: no request carries
  the serial 0, and the serials of the first \<open>2^63 - 2\<close> calls are all different.
\<close>

theorem Rpc_serial_sequence:
  "serial (fst (Rpc L io c methodName args kwargs))
     = (if serial c + 1 = MaxInt64 then 1 else serial c + 1)
   \<and> hd (fst (snd (Rpc L io c methodName args kwargs)))
     = EvEncode (GList [GList [GInt64 (serial (fst (Rpc L io c methodName args kwargs))),
                               GString methodName, GList args, GDict kwargs]])
   \<and> serial (New s) = 0
   \<and> (serial c = 0 \<longrightarrow>
        serials L c cs
          = map (\<lambda>i. word_of_nat (i mod 9223372036854775806 + 1)) [0..<length cs]
        \<and> 0 \<notin> set (serials L c cs)
        \<and> (length cs \<le> 9223372036854775806 \<longrightarrow> distinct (serials L c cs)))"
proof (intro conjI impI)
  show "serial (fst (Rpc L io c methodName args kwargs))
          = (if serial c + 1 = MaxInt64 then 1 else serial c + 1)"
    by (simp add: Rpc_client next_serial_def Let_def)
  show "hd (fst (snd (Rpc L io c methodName args kwargs)))
     = EvEncode (GList [GList [GInt64 (serial (fst (Rpc L io c methodName args kwargs))),
                               GString methodName, GList args, GDict kwargs]])"
    by (simp add: Rpc_first_event Rpc_client)
  show "serial (New s) = 0" by (simp add: New_def Let_def)
next
  assume "serial c = 0"
  then show "serials L c cs
          = map (\<lambda>i. word_of_nat (i mod 9223372036854775806 + 1)) [0..<length cs]"
    by (rule serials_fresh)
next
  assume "serial c = 0"
  then show "0 \<notin> set (serials L c cs)" by (rule serials_nonzero)
next
  assume "serial c = 0" and "length cs \<le> 9223372036854775806"
  then show "distinct (serials L c cs)" by (rule serials_distinct)
qed

theorem Rpc_serial_sequence_witness:
  "serial sample_client = 0
   \<and> length sample_calls \<le> 9223372036854775806
   \<and> serials sample_rencode sample_client sample_calls = [1, 2, 3]
   \<and> distinct (serials sample_rencode sample_client sample_calls)"
proof -
  have 0: "serial sample_client = 0" by (simp add: sample_client_def New_def Let_def)
  have 1: "length sample_calls \<le> 9223372036854775806" by (simp add: sample_calls_def)
  have 2: "map (\<lambda>i. word_of_nat (i mod 9223372036854775806 + 1) :: int64)
             [0..<length sample_calls] = [1, 2, 3]"
    by (simp add: sample_calls_def upt_rec)
  note T = Rpc_serial_sequence [where c = sample_client and L = sample_rencode
      and cs = sample_calls and io = "sample_io []" and methodName = "''daemon.info''"
      and args = "[]" and kwargs = "[]" and s = sample_settings]
  note F = T [THEN conjunct2, THEN conjunct2, THEN conjunct2, THEN mp, OF 0]
  have A: "serials sample_rencode sample_client sample_calls
          = map (\<lambda>i. word_of_nat (i mod 9223372036854775806 + 1)) [0..<length sample_calls]"
    by (rule F [THEN conjunct1])
  have D: "distinct (serials sample_rencode sample_client sample_calls)"
    by (rule F [THEN conjunct2, THEN conjunct2, THEN mp, OF 1])
  from A 2 have "serials sample_rencode sample_client sample_calls = [1, 2, 3]"
    by (rule trans)
  with 0 1 D show ?thesis by (intro conjI)
qed

subsection \<open>The deadline and the write\<close>








lemma no_write_logf: "\<not> list_ex is_write (logf c msg)"
  by (simp add: logf_def is_write_def split: option.splits)





subsection \<open>Close\<close>

lemma Connect_conn: "conn (fst (Connect L (Inr h) io c)) = Some h"
  by (simp add: Connect_def Let_def case_prod_beta Rpc_client
        split: outcome.splits option.splits sum.splits prod.splits)

text \<open>
  C9. On a client that holds a connection, a first \<^verbatim>\<open>Close\<close> closes the socket (once)
  and returns the result of that close; a second \<^verbatim>\<open>Close\<close> returns
  \<^verbatim>\<open>ErrAlreadyClosed\<close> and does nothing to the socket.
\<close>

theorem Close_twice:
  assumes "conn c = Some h"
  shows "Close r1 c = (c\<lparr>conn := None\<rparr>, [EvConnClose h], map_option ExtError r1)
       \<and> Close r2 (fst (Close r1 c)) = (c\<lparr>conn := None\<rparr>, [], Some ErrAlreadyClosed)"
  using assms by (simp add: Close_def)

theorem Close_twice_witness:
  "Close None sample_connected
     = (sample_connected\<lparr>conn := None\<rparr>, [EvConnClose 7], None)
   \<and> Close None (fst (Close None sample_connected))
     = (sample_connected\<lparr>conn := None\<rparr>, [], Some ErrAlreadyClosed)"
proof -
  have "conn sample_connected = Some 7"
    unfolding sample_connected_def by (rule Connect_conn)
  then show ?thesis by (rule Close_twice [of _ _ None None, unfolded option.map])
qed

text \<open>
  C10. \<^verbatim>\<open>Close\<close> returns \<^verbatim>\<open>ErrAlreadyClosed\<close> exactly when the connection field
  of the client is nil. It is nil in a client fresh from \<^verbatim>\<open>New\<close>, and after every
  \<^verbatim>\<open>Close\<close>, whatever closing the socket returned.
\<close>

theorem Close_already_closed:
  "(snd (snd (Close r c)) = Some ErrAlreadyClosed \<longleftrightarrow> conn c = None)
   \<and> conn (New s) = None
   \<and> conn (fst (Close r c)) = None"
  by (cases r; cases "conn c") (simp_all add: Close_def New_def Let_def)

theorem Close_already_closed_witness:
  "snd (snd (Close (Some ''broken pipe'') sample_connected)) \<noteq> Some ErrAlreadyClosed
   \<and> conn (fst (Close (Some ''broken pipe'') sample_connected)) = None
   \<and> snd (snd (Close None (fst (Close (Some ''broken pipe'') sample_connected))))
       = Some ErrAlreadyClosed
   \<and> snd (snd (Close None (New sample_settings))) = Some ErrAlreadyClosed"
proof -
  have c: "conn sample_connected = Some 7"
    unfolding sample_connected_def by (rule Connect_conn)
  show ?thesis
    using Close_already_closed [of "Some ''broken pipe''" sample_connected sample_settings]
      Close_already_closed [of None "fst (Close (Some ''broken pipe'') sample_connected)"
        sample_settings]
      Close_already_closed [of None "New sample_settings" sample_settings]
    by (simp add: c)
qed

end
